theory Spec2Isabelle
  imports Complex_Main
begin

section \<open>Data model of the web server\<close>

text \<open>
  The server keeps three pieces of process-lifetime state: the map \<open>topics\<close>, the map
  \<open>pendingPosts\<close> and the singleton \<open>schedule\<close>. Instants (\<open>Date\<close> values, \<open>Date.now()\<close>)
  are integers counting milliseconds. A JavaScript \<open>Map\<close> iterates in insertion order,
  and the handlers depend on that order (\<open>Array.from(topics.values())\<close>), so both maps
  are association lists with the \<open>Map\<close> operations written out.
\<close>

datatype status = pending | approved | rejected

record Topic =
  t_id :: string
  t_name :: string
  createdAt :: int
  t_isActive :: bool

record PendingPost =
  p_id :: string
  content :: string
  topic :: "string option"
  timestamp :: int
  status :: status
  scheduledFor :: "int option"

record Schedule =
  frequency :: string
  time :: string
  timezone :: string
  isActive :: bool

text \<open>\<open>Map.prototype.get\<close>, \<open>set\<close>, \<open>delete\<close>, \<open>has\<close> and \<open>values\<close>. Setting an existing key
  replaces its value in place; a new key goes to the end.\<close>

fun map_get :: "('k \<times> 'v) list \<Rightarrow> 'k \<Rightarrow> 'v option" where
  "map_get [] k = None"
| "map_get ((k', v) # m) k = (if k' = k then Some v else map_get m k)"

fun map_set :: "('k \<times> 'v) list \<Rightarrow> 'k \<Rightarrow> 'v \<Rightarrow> ('k \<times> 'v) list" where
  "map_set [] k v = [(k, v)]"
| "map_set ((k', v') # m) k v = (if k' = k then (k, v) # m else (k', v') # map_set m k v)"

fun map_has :: "('k \<times> 'v) list \<Rightarrow> 'k \<Rightarrow> bool" where
  "map_has [] k = False"
| "map_has ((k', v) # m) k = (k' = k \<or> map_has m k)"

fun map_delete :: "('k \<times> 'v) list \<Rightarrow> 'k \<Rightarrow> ('k \<times> 'v) list" where
  "map_delete [] k = []"
| "map_delete ((k', v) # m) k = (if k' = k then m else (k', v) # map_delete m k)"

definition map_values :: "('k \<times> 'v) list \<Rightarrow> 'v list" where
  "map_values m = map snd m"

text \<open>The timers of the Node event loop that the scheduler arms. The only \<open>setTimeout\<close> of
  the server is the first run of \<open>startScheduler\<close> (its callback generates a post and
  then calls \<open>setupRecurringSchedule\<close>); the only \<open>setInterval\<close> is the recurring run
  (its callback generates a post). A timer is \<open>live\<close> while it is in the list.\<close>

datatype timer = Timeout (due: int) | Interval (due: int) (every: int)

text \<open>The state of the process. \<open>tweets\<close> is the one piece that lives outside it: the texts
  that \<open>rw.v2.tweet\<close> has accepted, oldest first, so that a publish is observable.\<close>

record server =
  topics :: "(string \<times> Topic) list"
  pendingPosts :: "(string \<times> PendingPost) list"
  schedule :: Schedule
  scheduleInterval :: "nat option"
  timers :: "(nat \<times> timer) list"
  nextHandle :: nat
  tweets :: "string list"

text \<open>What a handler reads from outside while it runs: the clock, one draw of
  \<open>Math.random()\<close>, the two optional API clients (\<open>None\<close> when the credentials are not
  configured) with the outcome of a call, the time-zone database (the offset of a zone
  from UTC at an instant, in milliseconds; \<open>None\<close> for a name it does not know), and the
  zone the process itself runs in. The last is ECMAScript's \<open>LocalTZA(t, isUTC)\<close>: the
  offset of the process's zone in milliseconds, at the instant \<open>t\<close> when \<open>isUTC\<close> holds and
  at the local time \<open>t\<close> otherwise.\<close>

datatype thrown = Error string | NonError

datatype completion = Rejects thrown | Resolves "string option"

datatype tweet = TweetThrows thrown | TweetData string

record env =
  now :: int
  random :: real
  openRouterClient :: "(string \<Rightarrow> completion) option"
  twitterClient :: "(string \<Rightarrow> tweet) option"
  timeZone :: "string \<Rightarrow> int \<Rightarrow> int option"
  localTZA :: "int \<Rightarrow> bool \<Rightarrow> int"

text \<open>The JSON bodies the handlers send.\<close>

datatype response =
    Failure string
  | Success
  | TopicResult Topic
  | TopicList "Topic list"
  | ScheduleResult Schedule
  | ScheduleView Schedule
  | PostList "PendingPost list"
  | ApproveResult string
  | PostResult PendingPost

text \<open>\<open>error instanceof Error ? error.message : 'Unknown error'\<close>\<close>

fun error_message :: "thrown \<Rightarrow> string" where
  "error_message (Error m) = m"
| "error_message NonError = ''Unknown error''"

section \<open>Publishing and the post lifecycle\<close>

datatype publish_result = Published string | PublishFailed string

text \<open>\<open>postToX\<close>: without credentials it reports failure at once; a throwing \<open>tweet\<close> call
  is turned into a failure result, so the function itself never throws.\<close>

definition postToX :: "env \<Rightarrow> string \<Rightarrow> publish_result" where
  "postToX e c =
     (case twitterClient e of
        None \<Rightarrow> PublishFailed ''X API credentials not configured''
      | Some client \<Rightarrow>
          (case client c of
             TweetData i \<Rightarrow> Published i
           | TweetThrows err \<Rightarrow> PublishFailed (error_message err)))"

text \<open>\<open>app.post('/api/posts/:id/approve')\<close>\<close>

definition post_api_posts_approve :: "env \<Rightarrow> server \<Rightarrow> string \<Rightarrow> server \<times> response" where
  "post_api_posts_approve e srv i =
     (if i = [] then (srv, Failure ''Post ID required'')
      else case map_get (pendingPosts srv) i of
        None \<Rightarrow> (srv, Failure ''Post not found'')
      | Some post \<Rightarrow>
          (case postToX e (content post) of
             Published rid \<Rightarrow>
               (srv\<lparr>pendingPosts := map_set (pendingPosts srv) i (post\<lparr>status := approved\<rparr>),
                    tweets := tweets srv @ [content post]\<rparr>,
                ApproveResult rid)
           | PublishFailed err \<Rightarrow> (srv, Failure err)))"

text \<open>\<open>app.post('/api/posts/:id/reject')\<close>\<close>

definition post_api_posts_reject :: "server \<Rightarrow> string \<Rightarrow> server \<times> response" where
  "post_api_posts_reject srv i =
     (if i = [] then (srv, Failure ''Post ID required'')
      else case map_get (pendingPosts srv) i of
        None \<Rightarrow> (srv, Failure ''Post not found'')
      | Some post \<Rightarrow>
          (srv\<lparr>pendingPosts := map_set (pendingPosts srv) i (post\<lparr>status := rejected\<rparr>)\<rparr>,
           Success))"

section \<open>Strings and numbers of the JavaScript runtime\<close>

text \<open>\<open>Number.prototype.toString\<close> on an integer: its decimal digits, with a sign when
  negative. \<open>Date.now().toString()\<close> is how the server makes the ids of topics and posts.\<close>

definition digit_char :: "nat \<Rightarrow> char" where
  "digit_char d = char_of (48 + d)"

fun digits :: "nat \<Rightarrow> string" where
  "digits n = (if n < 10 then [digit_char n] else digits (n div 10) @ [digit_char (n mod 10)])"

declare digits.simps [simp del]

definition toString :: "int \<Rightarrow> string" where
  "toString i = (if i < 0 then CHR ''-'' # digits (nat (- i)) else digits (nat i))"

text \<open>\<open>String.prototype.trim\<close>, over the ASCII white space (space, tab, line feed, vertical
  tab, form feed, carriage return), which is all the white space an ASCII string can hold.\<close>

definition is_space :: "char \<Rightarrow> bool" where
  "is_space c = (c \<in> set [CHR 0x20, CHR 0x09, CHR 0x0A, CHR 0x0B, CHR 0x0C, CHR 0x0D])"

definition trim :: "string \<Rightarrow> string" where
  "trim s = rev (dropWhile is_space (rev (dropWhile is_space s)))"


text \<open>\<open>String.prototype.split\<close> with a one-character separator: the empty string gives one
  empty piece.\<close>

fun split_on :: "char \<Rightarrow> string \<Rightarrow> string list" where
  "split_on c [] = [[]]"
| "split_on c (x # xs) =
     (if x = c then [] # split_on c xs
      else (case split_on c xs of [] \<Rightarrow> [[x]] | w # ws \<Rightarrow> (x # w) # ws))"

text \<open>JavaScript numbers, as far as strings denote them: \<open>NaN\<close>, the two infinities, and
  the finite values, kept as exact rationals. JavaScript rounds a literal to the nearest
  double; the finite values here are the literals' exact values, so the two agree whenever
  the exact value is a double, in particular an integer below \<open>2^53\<close>. The zero of either
  sign is \<open>Finite 0\<close>.\<close>

datatype number = NaN | Finite rat | PlusInfinity | MinusInfinity

fun negate :: "number \<Rightarrow> number" where
  "negate NaN = NaN"
| "negate (Finite q) = Finite (- q)"
| "negate PlusInfinity = MinusInfinity"
| "negate MinusInfinity = PlusInfinity"

definition is_digit :: "char \<Rightarrow> bool" where
  "is_digit c = (48 \<le> (of_char c :: nat) \<and> (of_char c :: nat) \<le> 57)"

definition digits_value :: "string \<Rightarrow> nat" where
  "digits_value s = foldl (\<lambda>a c. 10 * a + (of_char c - 48)) 0 s"

text \<open>The digits of a literal with a prefix (\<open>0x\<close>, \<open>0o\<close>, \<open>0b\<close>): at least one digit, each
  below the radix.\<close>

definition digit_of :: "char \<Rightarrow> nat option" where
  "digit_of c =
     (let n = (of_char c :: nat) in
      if 48 \<le> n \<and> n \<le> 57 then Some (n - 48)
      else if 97 \<le> n \<and> n \<le> 102 then Some (n - 87)
      else if 65 \<le> n \<and> n \<le> 70 then Some (n - 55)
      else None)"

fun radix_digits :: "nat \<Rightarrow> nat \<Rightarrow> string \<Rightarrow> nat option" where
  "radix_digits b a [] = Some a"
| "radix_digits b a (c # cs) =
     (case digit_of c of
        None \<Rightarrow> None
      | Some v \<Rightarrow> if v < b then radix_digits b (b * a + v) cs else None)"

definition radix_literal :: "nat \<Rightarrow> string \<Rightarrow> number" where
  "radix_literal b s =
     (if s = [] then NaN
      else case radix_digits b 0 s of None \<Rightarrow> NaN | Some n \<Rightarrow> Finite (of_nat n))"

text \<open>The exponent part that may end a decimal literal: nothing, or \<open>e\<close> or \<open>E\<close>, an optional
  sign and at least one digit. \<open>None\<close> when the text is neither.\<close>

definition unsigned_digits :: "string \<Rightarrow> int option" where
  "unsigned_digits d = (if d \<noteq> [] \<and> list_all is_digit d then Some (int (digits_value d)) else None)"

definition exponent :: "string \<Rightarrow> int option" where
  "exponent s =
     (case s of
        [] \<Rightarrow> Some 0
      | c # r \<Rightarrow>
          if c = CHR ''e'' \<or> c = CHR ''E'' then
            (case r of
               [] \<Rightarrow> None
             | x # d \<Rightarrow>
                 if x = CHR ''+'' then unsigned_digits d
                 else if x = CHR ''-'' then map_option uminus (unsigned_digits d)
                 else unsigned_digits r)
          else None)"

definition scale :: "rat \<Rightarrow> int \<Rightarrow> rat" where
  "scale q k = (if 0 \<le> k then q * 10 ^ nat k else q / 10 ^ nat (- k))"

text \<open>A decimal literal without sign: \<open>Infinity\<close>, or digits with an optional fraction and an
  optional exponent, with at least one digit before or after the point.\<close>

definition unsigned_decimal :: "string \<Rightarrow> number" where
  "unsigned_decimal s =
     (if s = ''Infinity'' then PlusInfinity
      else
        let ip = takeWhile is_digit s;
            r = dropWhile is_digit s;
            fp = (case r of [] \<Rightarrow> [] | c # r' \<Rightarrow> if c = CHR ''.'' then takeWhile is_digit r' else []);
            r2 = (case r of [] \<Rightarrow> [] | c # r' \<Rightarrow> if c = CHR ''.'' then dropWhile is_digit r' else r)
        in if ip = [] \<and> fp = [] then NaN
           else case exponent r2 of
                  None \<Rightarrow> NaN
                | Some ex \<Rightarrow> Finite (scale (of_nat (digits_value (ip @ fp))) (ex - int (length fp))))"

text \<open>\<open>Number(s)\<close> on a string: white space is trimmed; the empty string is 0; a prefixed
  literal takes no sign; a decimal literal takes an optional sign; everything else is
  \<open>NaN\<close>.\<close>

definition Number :: "string \<Rightarrow> number" where
  "Number s =
     (let t = trim s in
      if t = [] then Finite 0
      else if take 2 t = ''0x'' \<or> take 2 t = ''0X'' then radix_literal 16 (drop 2 t)
      else if take 2 t = ''0o'' \<or> take 2 t = ''0O'' then radix_literal 8 (drop 2 t)
      else if take 2 t = ''0b'' \<or> take 2 t = ''0B'' then radix_literal 2 (drop 2 t)
      else if hd t = CHR ''+'' then unsigned_decimal (tl t)
      else if hd t = CHR ''-'' then negate (unsigned_decimal (tl t))
      else unsigned_decimal t)"

text \<open>\<open>x || d\<close> on a number that may be \<open>undefined\<close> (\<open>None\<close>): every falsy value, that is
  \<open>undefined\<close>, \<open>NaN\<close> and 0, gives the default.\<close>

fun truthy :: "number \<Rightarrow> bool" where
  "truthy NaN = False"
| "truthy (Finite q) = (q \<noteq> 0)"
| "truthy PlusInfinity = True"
| "truthy MinusInfinity = True"

fun or_default :: "number option \<Rightarrow> number \<Rightarrow> number" where
  "or_default None d = d"
| "or_default (Some n) d = (if truthy n then n else d)"

text \<open>Reading an array element that may be missing (\<open>undefined\<close>).\<close>

fun element :: "'a list \<Rightarrow> nat \<Rightarrow> 'a option" where
  "element [] i = None"
| "element (x # xs) 0 = Some x"
| "element (x # xs) (Suc i) = element xs i"

section \<open>Topic registry\<close>

text \<open>\<open>app.post('/api/topics')\<close>; the body's \<open>name\<close> is \<open>None\<close> when the field is absent.\<close>

definition post_api_topics :: "env \<Rightarrow> server \<Rightarrow> string option \<Rightarrow> server \<times> response" where
  "post_api_topics e srv name =
     (case name of
        None \<Rightarrow> (srv, Failure ''Topic name required'')
      | Some n \<Rightarrow>
          if n = [] then (srv, Failure ''Topic name required'')
          else
            let topicId = toString (now e);
                t = \<lparr>t_id = topicId, t_name = n, createdAt = now e, t_isActive = True\<rparr>
            in (srv\<lparr>topics := map_set (topics srv) topicId t\<rparr>, TopicResult t))"

text \<open>\<open>app.get('/api/topics')\<close>: newest first; the sort is stable.\<close>

definition get_api_topics :: "server \<Rightarrow> response" where
  "get_api_topics srv = TopicList (sort_key (\<lambda>t. - createdAt t) (map_values (topics srv)))"

text \<open>\<open>app.post('/api/topics/:id/toggle')\<close>\<close>

definition post_api_topics_toggle :: "server \<Rightarrow> string \<Rightarrow> server \<times> response" where
  "post_api_topics_toggle srv i =
     (if i = [] then (srv, Failure ''Topic ID required'')
      else case map_get (topics srv) i of
        None \<Rightarrow> (srv, Failure ''Topic not found'')
      | Some t \<Rightarrow>
          (let t' = t\<lparr>t_isActive := \<not> t_isActive t\<rparr>
           in (srv\<lparr>topics := map_set (topics srv) i t'\<rparr>, TopicResult t')))"

text \<open>\<open>app.delete('/api/topics/:id')\<close>\<close>

definition delete_api_topics :: "server \<Rightarrow> string \<Rightarrow> server \<times> response" where
  "delete_api_topics srv i =
     (if i = [] then (srv, Failure ''Topic ID required'')
      else if \<not> map_has (topics srv) i then (srv, Failure ''Topic not found'')
      else (srv\<lparr>topics := map_delete (topics srv) i\<rparr>, Success))"

section \<open>Generation\<close>

text \<open>\<open>generatePost\<close>: with no content client the fallback template is returned; with a
  client, a rejected request is an exception of \<open>generatePost\<close> itself (\<open>Inl\<close>).\<close>

definition fallback :: "string \<Rightarrow> string" where
  "fallback subject =
     ''Tip: '' @ subject @
     ''. Keep it short, specific, and actionable. Focus on one insight, avoid fluff.''"

definition prompt :: "string \<Rightarrow> string" where
  "prompt subject =
     ''Write a concise X post (<=260 chars) about '' @ subject @
     ''. No emojis. Minimal or no hashtags. Provide one actionable insight.''"

text \<open>\<open>topic || 'a useful dev tip'\<close>\<close>

definition subject :: "string option \<Rightarrow> string" where
  "subject tp =
     (case tp of None \<Rightarrow> ''a useful dev tip''
      | Some t \<Rightarrow> if t = [] then ''a useful dev tip'' else t)"

definition generatePost :: "env \<Rightarrow> string option \<Rightarrow> thrown + string" where
  "generatePost e tp =
     (case openRouterClient e of
        None \<Rightarrow>
          Inr (if length (fallback (subject tp)) > 280 then take 279 (fallback (subject tp))
               else fallback (subject tp))
      | Some client \<Rightarrow>
          (case client (prompt (subject tp)) of
             Rejects err \<Rightarrow> Inl err
           | Resolves c \<Rightarrow>
               (let text = (case c of None \<Rightarrow> [] | Some s \<Rightarrow> trim s)
                in Inr (if length text > 280 then take 279 text else text))))"

text \<open>\<open>Math.floor(Math.random() * n)\<close>\<close>

definition random_index :: "env \<Rightarrow> nat \<Rightarrow> nat" where
  "random_index e n = nat \<lfloor>random e * real n\<rfloor>"

text \<open>\<open>app.post('/api/generate-post')\<close>. \<open>sendEmailNotification\<close> catches its own errors and
  touches no state of the server, so it leaves no trace here. An index outside the array
  would read \<open>undefined\<close> and throw on \<open>.name\<close>, which the handler's \<open>catch\<close> reports.\<close>

definition post_api_generate_post :: "env \<Rightarrow> server \<Rightarrow> server \<times> response" where
  "post_api_generate_post e srv =
     (let activeTopics = filter t_isActive (map_values (topics srv)) in
      if length activeTopics = 0
      then (srv, Failure ''No active topics found. Please add and enable some topics first.'')
      else
        let k = random_index e (length activeTopics) in
        if k \<ge> length activeTopics
        then (srv, Failure ''Cannot read properties of undefined'')
        else
          let randomTopic = activeTopics ! k in
          case generatePost e (Some (t_name randomTopic)) of
            Inl err \<Rightarrow> (srv, Failure (error_message err))
          | Inr c \<Rightarrow>
              (let postId = toString (now e);
                   post = \<lparr>p_id = postId, content = c, topic = Some (t_name randomTopic),
                           timestamp = now e, status = pending, scheduledFor = None\<rparr>
               in (srv\<lparr>pendingPosts := map_set (pendingPosts srv) postId post\<rparr>,
                   PostResult post)))"

text \<open>\<open>generateScheduledPost\<close>, the timer's callback: the same steps, with every failure
  logged instead of returned.\<close>

definition generateScheduledPost :: "env \<Rightarrow> server \<Rightarrow> server" where
  "generateScheduledPost e srv =
     (let activeTopics = filter t_isActive (map_values (topics srv)) in
      if length activeTopics = 0 then srv
      else
        let k = random_index e (length activeTopics) in
        if k \<ge> length activeTopics then srv
        else
          let randomTopic = activeTopics ! k in
          case generatePost e (Some (t_name randomTopic)) of
            Inl err \<Rightarrow> srv
          | Inr c \<Rightarrow>
              (let postId = toString (now e);
                   post = \<lparr>p_id = postId, content = c, topic = Some (t_name randomTopic),
                           timestamp = now e, status = pending, scheduledFor = None\<rparr>
               in srv\<lparr>pendingPosts := map_set (pendingPosts srv) postId post\<rparr>))"

text \<open>\<open>app.get('/api/posts')\<close>: an optional status filter, newest first.\<close>

fun status_string :: "status \<Rightarrow> string" where
  "status_string pending = ''pending''"
| "status_string approved = ''approved''"
| "status_string rejected = ''rejected''"

definition get_api_posts :: "server \<Rightarrow> string option \<Rightarrow> response" where
  "get_api_posts srv st =
     (let posts = map_values (pendingPosts srv);
          posts' = (case st of None \<Rightarrow> posts
                    | Some f \<Rightarrow> if f = [] then posts
                                else filter (\<lambda>p. status_string (status p) = f) posts)
      in PostList (sort_key (\<lambda>p. - timestamp p) posts'))"


section \<open>Scheduler\<close>

text \<open>\<open>Date\<close> values. A \<open>Date\<close> holds a time value, the milliseconds since the epoch in UTC,
  or \<open>NaN\<close> (an invalid date, \<open>None\<close> here). \<open>TimeClip\<close>, \<open>LocalTime\<close>, \<open>UTC\<close> and \<open>MakeTime\<close> are
  the operations of that name in ECMAScript; the arithmetic is exact where JavaScript's is
  in doubles, which is the same for the integers below \<open>2^53\<close> that pass \<open>TimeClip\<close>.\<close>

definition msPerDay :: int where
  "msPerDay = 24 * 60 * 60 * 1000"

definition TimeClip :: "int \<Rightarrow> int option" where
  "TimeClip t = (if \<bar>t\<bar> \<le> 8640000000000000 then Some t else None)"

definition LocalTime :: "env \<Rightarrow> int \<Rightarrow> int" where
  "LocalTime e t = t + localTZA e t True"

definition UTC :: "env \<Rightarrow> int \<Rightarrow> int" where
  "UTC e t = t - localTZA e t False"

text \<open>\<open>ToIntegerOrInfinity\<close> on a finite number: the fraction is dropped.\<close>

definition truncate :: "rat \<Rightarrow> int" where
  "truncate q = (if q < 0 then - \<lfloor>- q\<rfloor> else \<lfloor>q\<rfloor>)"

definition MakeTime :: "number \<Rightarrow> number \<Rightarrow> int option" where
  "MakeTime h m =
     (case h of
        Finite a \<Rightarrow>
          (case m of
             Finite b \<Rightarrow> Some (truncate a * 3600000 + truncate b * 60000)
           | _ \<Rightarrow> None)
      | _ \<Rightarrow> None)"

text \<open>\<open>now.toLocaleString("en-US", {timeZone: z})\<close> prints the wall clock of the zone \<open>z\<close> to
  the second; it is kept as the milliseconds that clock shows. \<open>new Date(text)\<close> reads such a
  text back as a local time of the process; the text has a year of four digits, which
  reads back as the same year, when the wall clock shows a date from 1970 to 9999.\<close>

definition toLocaleTime :: "int \<Rightarrow> int \<Rightarrow> int" where
  "toLocaleTime t off = ((t + off) div 1000) * 1000"

definition parseLocal :: "env \<Rightarrow> int \<Rightarrow> int option" where
  "parseLocal e w = TimeClip (UTC e w)"

text \<open>\<open>d.setHours(h, m, 0, 0)\<close> keeps the local day of the process and replaces the time
  within it. \<open>d.setDate(d.getDate() + 1)\<close> keeps the local time within the day and moves to
  the next local day; the day after the day \<open>n\<close> is the day \<open>n + 1\<close> in every month.\<close>

definition setHours :: "env \<Rightarrow> int option \<Rightarrow> number \<Rightarrow> number \<Rightarrow> int option" where
  "setHours e d h m =
     (case d of
        None \<Rightarrow> None
      | Some t \<Rightarrow>
          (case MakeTime h m of
             None \<Rightarrow> None
           | Some tm \<Rightarrow> TimeClip (UTC e ((LocalTime e t div msPerDay) * msPerDay + tm))))"

definition nextDay :: "env \<Rightarrow> int option \<Rightarrow> int option" where
  "nextDay e d =
     (case d of
        None \<Rightarrow> None
      | Some t \<Rightarrow> TimeClip (UTC e (LocalTime e t + msPerDay)))"

text \<open>\<open>a <= b\<close> and \<open>a.getTime() - b.getTime()\<close> on dates: with an invalid date the comparison
  is false and the difference is \<open>NaN\<close>.\<close>

definition date_le :: "int option \<Rightarrow> int option \<Rightarrow> bool" where
  "date_le a b = (case a of None \<Rightarrow> False | Some x \<Rightarrow> (case b of None \<Rightarrow> False | Some y \<Rightarrow> x \<le> y))"

definition date_diff :: "int option \<Rightarrow> int option \<Rightarrow> int option" where
  "date_diff a b = (case a of None \<Rightarrow> None | Some x \<Rightarrow> (case b of None \<Rightarrow> None | Some y \<Rightarrow> Some (x - y)))"

text \<open>Lines 250 to 260 of \<open>startScheduler\<close>: the next run, from the schedule's time string and
  the date \<open>userTime\<close>.\<close>

definition nextRun :: "env \<Rightarrow> string \<Rightarrow> int option \<Rightarrow> int option" where
  "nextRun e tm userTime =
     (let parts = map Number (split_on CHR '':'' tm);
          hours = element parts 0;
          minutes = element parts 1;
          run = setHours e userTime (or_default hours (Finite 9)) (or_default minutes (Finite 0))
      in if date_le run userTime then nextDay e run else run)"

text \<open>\<open>setTimeout\<close>, \<open>setInterval\<close> and \<open>clearInterval\<close> of Node on the timer list. A delay that
  is \<open>NaN\<close>, below 1 or above \<open>2^31 - 1\<close> milliseconds is replaced by 1. A handle is never
  reused.\<close>

definition TIMEOUT_MAX :: int where
  "TIMEOUT_MAX = 2147483647"

definition timer_delay :: "int option \<Rightarrow> int" where
  "timer_delay after =
     (case after of
        None \<Rightarrow> 1
      | Some a \<Rightarrow> if 1 \<le> a \<and> a \<le> TIMEOUT_MAX then a else 1)"

definition setTimeout :: "server \<Rightarrow> int \<Rightarrow> int option \<Rightarrow> server" where
  "setTimeout srv t after =
     srv\<lparr>timers := timers srv @ [(nextHandle srv, Timeout (t + timer_delay after))],
         nextHandle := Suc (nextHandle srv)\<rparr>"

definition setInterval :: "server \<Rightarrow> int \<Rightarrow> int option \<Rightarrow> server \<times> nat" where
  "setInterval srv t after =
     (srv\<lparr>timers := timers srv @
            [(nextHandle srv, Interval (t + timer_delay after) (timer_delay after))],
          nextHandle := Suc (nextHandle srv)\<rparr>,
      nextHandle srv)"

definition clearInterval :: "server \<Rightarrow> nat \<Rightarrow> server" where
  "clearInterval srv h = srv\<lparr>timers := map_delete (timers srv) h\<rparr>"

text \<open>\<open>startScheduler\<close>. The handle of the timeout it arms is not kept anywhere; the variable
  \<open>scheduleInterval\<close> is only ever assigned by \<open>setupRecurringSchedule\<close>. An unknown zone
  makes \<open>toLocaleString\<close> throw a \<open>RangeError\<close> after the old interval has been cleared.\<close>

definition startScheduler :: "env \<Rightarrow> server \<Rightarrow> server \<times> thrown option" where
  "startScheduler e srv0 =
     (let srv = (case scheduleInterval srv0 of
                   Some h \<Rightarrow> clearInterval srv0 h
                 | None \<Rightarrow> srv0)
      in if \<not> isActive (schedule srv) then (srv, None)
         else
           case timeZone e (timezone (schedule srv)) (now e) of
             None \<Rightarrow>
               (srv, Some (Error (''Invalid time zone specified: '' @ timezone (schedule srv))))
           | Some off \<Rightarrow>
               (let userTime = parseLocal e (toLocaleTime (now e) off);
                    run = nextRun e (time (schedule srv)) userTime;
                    delay = date_diff run userTime
                in (setTimeout srv (now e) delay, None)))"

text \<open>\<open>setupRecurringSchedule\<close>\<close>

definition intervalMs :: "string \<Rightarrow> int" where
  "intervalMs f =
     (if f = ''daily'' then 24 * 60 * 60 * 1000
      else if f = ''weekly'' then 7 * 24 * 60 * 60 * 1000
      else if f = ''monthly'' then 30 * 24 * 60 * 60 * 1000
      else 24 * 60 * 60 * 1000)"

definition setupRecurringSchedule :: "env \<Rightarrow> server \<Rightarrow> server" where
  "setupRecurringSchedule e srv =
     (if \<not> isActive (schedule srv) then srv
      else
        let (srv', h) = setInterval srv (now e) (Some (intervalMs (frequency (schedule srv))))
        in srv'\<lparr>scheduleInterval := Some h\<rparr>)"

text \<open>The event loop running timer \<open>h\<close> at the instant \<open>now e\<close>: nothing happens for a handle
  that is not live or not yet due; a timeout is consumed and runs the first-run callback;
  an interval is re-armed one period after this run and runs the recurring callback.\<close>

definition fire :: "env \<Rightarrow> server \<Rightarrow> nat \<Rightarrow> server" where
  "fire e srv h =
     (case map_get (timers srv) h of
        None \<Rightarrow> srv
      | Some (Timeout d) \<Rightarrow>
          if now e < d then srv
          else setupRecurringSchedule e
                 (generateScheduledPost e (srv\<lparr>timers := map_delete (timers srv) h\<rparr>))
      | Some (Interval d ms) \<Rightarrow>
          if now e < d then srv
          else generateScheduledPost e
                 (srv\<lparr>timers := map_set (timers srv) h (Interval (now e + ms) ms)\<rparr>))"

text \<open>\<open>app.post('/api/schedule')\<close>; a field of the body is \<open>None\<close> when absent. The three
  assignments happen before the scheduler is restarted, so they stay when it throws.\<close>

definition post_api_schedule ::
  "env \<Rightarrow> server \<Rightarrow> string option \<Rightarrow> string option \<Rightarrow> string option \<Rightarrow> server \<times> response" where
  "post_api_schedule e srv f t z =
     (if f = None \<or> f = Some [] \<or> t = None \<or> t = Some [] \<or> z = None \<or> z = Some []
      then (srv, Failure ''Frequency, time, and timezone required'')
      else
        let sch = (schedule srv)\<lparr>frequency := the f, time := the t, timezone := the z\<rparr>;
            (srv', err) = startScheduler e (srv\<lparr>schedule := sch\<rparr>)
        in case err of
             None \<Rightarrow> (srv', ScheduleResult (schedule srv'))
           | Some x \<Rightarrow> (srv', Failure (error_message x)))"

text \<open>\<open>app.listen\<close>: the state the process starts with, and the scheduler started on it.\<close>

definition initial :: server where
  "initial = \<lparr>topics = [], pendingPosts = [],
              schedule = \<lparr>frequency = ''daily'', time = ''09:00'', timezone = ''UTC'', isActive = True\<rparr>,
              scheduleInterval = None, timers = [], nextHandle = 0, tweets = []\<rparr>"

definition listen :: "env \<Rightarrow> server" where
  "listen e = fst (startScheduler e initial)"

section \<open>Events\<close>

text \<open>Everything that can happen to the running process: a request on one of the routes, or
  a timer of the event loop coming due. Each event is handled to completion with its own
  reading of the outside world.\<close>

datatype event =
    AddTopic "string option"
  | ListTopics
  | ToggleTopic string
  | DeleteTopic string
  | UpdateSchedule "string option" "string option" "string option"
  | GetSchedule
  | ListPosts "string option"
  | ApprovePost string
  | RejectPost string
  | GeneratePost
  | Fire nat

fun handle :: "env \<Rightarrow> server \<Rightarrow> event \<Rightarrow> server \<times> response option" where
  "handle e srv (AddTopic n) = map_prod id Some (post_api_topics e srv n)"
| "handle e srv ListTopics = (srv, Some (get_api_topics srv))"
| "handle e srv (ToggleTopic i) = map_prod id Some (post_api_topics_toggle srv i)"
| "handle e srv (DeleteTopic i) = map_prod id Some (delete_api_topics srv i)"
| "handle e srv (UpdateSchedule f t z) = map_prod id Some (post_api_schedule e srv f t z)"
| "handle e srv GetSchedule = (srv, Some (ScheduleView (schedule srv)))"
| "handle e srv (ListPosts st) = (srv, Some (get_api_posts srv st))"
| "handle e srv (ApprovePost i) = map_prod id Some (post_api_posts_approve e srv i)"
| "handle e srv (RejectPost i) = map_prod id Some (post_api_posts_reject srv i)"
| "handle e srv GeneratePost = map_prod id Some (post_api_generate_post e srv)"
| "handle e srv (Fire h) = (fire e srv h, None)"

fun run :: "server \<Rightarrow> (env \<times> event) list \<Rightarrow> server" where
  "run srv [] = srv"
| "run srv ((e, ev) # rest) = run (fst (handle e srv ev)) rest"

text \<open>The status of a stored post, if the id is known.\<close>

definition status_of :: "server \<Rightarrow> string \<Rightarrow> status option" where
  "status_of srv i = map_option status (map_get (pendingPosts srv) i)"

text \<open>A post that has left \<open>pending\<close>.\<close>

definition settled :: "server \<Rightarrow> string \<Rightarrow> bool" where
  "settled srv i = (status_of srv i = Some approved \<or> status_of srv i = Some rejected)"

section \<open>Sample worlds\<close>

text \<open>Concrete surroundings for running the server: a zone database that knows UTC only, a
  process that runs in UTC, a publisher that accepts every text, no content client. The variants take the publisher's
  credentials away, or add a content client whose requests are rejected.\<close>

definition utc_only :: "string \<Rightarrow> int \<Rightarrow> int option" where
  "utc_only z t = (if z = ''UTC'' then Some 0 else None)"

definition world :: "int \<Rightarrow> env" where
  "world t = \<lparr>now = t, random = 1 / 2, openRouterClient = None,
              twitterClient = Some (\<lambda>c. TweetData ''99''), timeZone = utc_only,
              localTZA = (\<lambda>t u. 0)\<rparr>"

definition no_credentials :: "int \<Rightarrow> env" where
  "no_credentials t = (world t)\<lparr>twitterClient := None\<rparr>"

definition generator_down :: "int \<Rightarrow> env" where
  "generator_down t =
     (world t)\<lparr>openRouterClient := Some (\<lambda>p. Rejects (Error ''503 Service Unavailable''))\<rparr>"

text \<open>The surroundings of a process that runs in New York around the start of daylight
  saving time on 10 March 2024: five hours behind UTC before 07:00 UTC, four hours behind
  from then on; a local time before 03:00 of that day is read with the earlier offset.\<close>

definition new_york :: "int \<Rightarrow> env" where
  "new_york t =
     (world t)\<lparr>localTZA := (\<lambda>x u. if u then (if x < 1710054000000 then - 18000000 else - 14400000)
                                  else (if x < 1710039600000 then - 18000000 else - 14400000))\<rparr>"

text \<open>A server holding the single active topic \<open>coding tips\<close>, and the same server after one
  manual generation.\<close>

definition one_topic :: server where
  "one_topic = run (listen (world 0)) [(world 1000, AddTopic (Some ''coding tips''))]"

definition one_post :: server where
  "one_post = run one_topic [(world 2000, GeneratePost)]"

text \<open>The same server after the post has been approved and published, and the one-topic
  server with its topic switched off.\<close>

definition one_approved :: server where
  "one_approved = run one_post [(world 3000, ApprovePost ''2000'')]"

definition one_inactive :: server where
  "one_inactive = run one_topic [(world 1500, ToggleTopic ''1000'')]"


definition rescheduled :: server where
  "rescheduled =
     run one_topic
       [(world 3600000, UpdateSchedule (Some ''daily'') (Some ''10:00'') (Some ''UTC''))]"

definition both_fired :: server where
  "both_fired = run rescheduled [(world 32400000, Fire 0), (world 36000000, Fire 1)]"

section \<open>Facts about the maps\<close>


lemma map_get_map_set: "map_get (map_set m k v) k' = (if k' = k then Some v else map_get m k')"
  by (induction m) auto

lemma status_of_set:
  "status_of (srv\<lparr>pendingPosts := map_set (pendingPosts srv) i p\<rparr>) j =
     (if j = i then Some (status p) else status_of srv j)"
  by (simp add: status_of_def map_get_map_set)

section \<open>Evaluating the sample runs\<close>

lemma digit_chars:
  "digit_char 0 = CHR ''0''" "digit_char 1 = CHR ''1''" "digit_char 2 = CHR ''2''"
  "digit_char 3 = CHR ''3''" "digit_char 4 = CHR ''4''" "digit_char 5 = CHR ''5''"
  "digit_char 6 = CHR ''6''" "digit_char 7 = CHR ''7''" "digit_char 8 = CHR ''8''"
  "digit_char 9 = CHR ''9''" "digit_char (Suc 0) = CHR ''1''"
  by (simp_all add: digit_char_def char_of_def bit_simps)

lemmas toString_eval = toString_def digits.simps digit_chars

lemmas number_eval =
  Number_def trim_def is_space_def is_digit_def digits_value_def unsigned_decimal_def
  unsigned_digits_def exponent_def scale_def

lemmas date_eval =
  toLocaleTime_def parseLocal_def TimeClip_def LocalTime_def UTC_def truncate_def MakeTime_def
  setHours_def nextDay_def date_le_def date_diff_def msPerDay_def timer_delay_def
  TIMEOUT_MAX_def

lemmas clock_eval = nextRun_def number_eval date_eval Let_def

lemma world_fields:
  "now (world t) = t" "random (world t) = 1 / 2" "openRouterClient (world t) = None"
  "twitterClient (world t) = Some (\<lambda>c. TweetData ''99'')" "timeZone (world t) = utc_only"
  "localTZA (world t) = (\<lambda>t u. 0)"
  by (simp_all add: world_def)

lemmas world_eval = world_fields utc_only_def

lemma no_credentials_fields:
  "now (no_credentials t) = t" "twitterClient (no_credentials t) = None"
  by (simp_all add: no_credentials_def world_def)

lemma postToX_world: "postToX (world t) c = Published ''99''"
  by (simp add: postToX_def world_fields)

lemma postToX_no_credentials:
  "postToX (no_credentials t) c = PublishFailed ''X API credentials not configured''"
  by (simp add: postToX_def no_credentials_fields)

lemma random_index_one:
  assumes "0 \<le> random e" and "random e < 1"
  shows "random_index e (Suc 0) = 0"
  using assms by (simp add: random_index_def)

lemma random_index_world: "random_index (world t) (Suc 0) = 0"
  by (simp add: random_index_one world_fields)

lemma random_index_less:
  assumes "0 \<le> random e" and "random e < 1" and "0 < n"
  shows "random_index e n < n"
proof -
  have "random e * real n < real n"
    using assms by simp
  then have "\<lfloor>random e * real n\<rfloor> < int n"
    by (simp add: floor_less_iff)
  moreover have "0 \<le> \<lfloor>random e * real n\<rfloor>"
    using assms by simp
  ultimately have "nat \<lfloor>random e * real n\<rfloor> < n"
    by linarith
  then show ?thesis
    by (simp add: random_index_def)
qed

lemma generator_down_fields:
  "now (generator_down t) = t" "random (generator_down t) = 1 / 2"
  "openRouterClient (generator_down t) = Some (\<lambda>p. Rejects (Error ''503 Service Unavailable''))"
  by (simp_all add: generator_down_def world_def)

lemma fallback_coding_tips:
  "fallback ''coding tips'' =
     ''Tip: coding tips. Keep it short, specific, and actionable. Focus on one insight, avoid fluff.''"
  by (simp add: fallback_def)

lemma generatePost_world:
  "generatePost (world t) (Some ''coding tips'') = Inr (fallback ''coding tips'')"
  by (simp add: generatePost_def subject_def world_fields fallback_coding_tips)

lemma listen_world_0:
  "listen (world 0) =
     \<lparr>topics = [], pendingPosts = [],
      schedule = \<lparr>frequency = ''daily'', time = ''09:00'', timezone = ''UTC'', isActive = True\<rparr>,
      scheduleInterval = None, timers = [(0, Timeout 32400000)], nextHandle = 1, tweets = []\<rparr>"
  by (simp add: listen_def initial_def startScheduler_def setTimeout_def world_eval clock_eval)

lemma one_topic_state:
  "one_topic =
     \<lparr>topics = [(''1000'', \<lparr>t_id = ''1000'', t_name = ''coding tips'', createdAt = 1000,
                            t_isActive = True\<rparr>)],
      pendingPosts = [],
      schedule = \<lparr>frequency = ''daily'', time = ''09:00'', timezone = ''UTC'', isActive = True\<rparr>,
      scheduleInterval = None, timers = [(0, Timeout 32400000)], nextHandle = 1, tweets = []\<rparr>"
  by (simp add: one_topic_def listen_world_0 post_api_topics_def Let_def world_eval toString_eval)

lemma one_inactive_state:
  "one_inactive =
     \<lparr>topics = [(''1000'', \<lparr>t_id = ''1000'', t_name = ''coding tips'', createdAt = 1000,
                            t_isActive = False\<rparr>)],
      pendingPosts = [],
      schedule = \<lparr>frequency = ''daily'', time = ''09:00'', timezone = ''UTC'', isActive = True\<rparr>,
      scheduleInterval = None, timers = [(0, Timeout 32400000)], nextHandle = 1, tweets = []\<rparr>"
  by (simp add: one_inactive_def one_topic_state post_api_topics_toggle_def Let_def)

lemma one_post_state:
  "one_post =
     \<lparr>topics = [(''1000'', \<lparr>t_id = ''1000'', t_name = ''coding tips'', createdAt = 1000,
                            t_isActive = True\<rparr>)],
      pendingPosts =
        [(''2000'',
          \<lparr>p_id = ''2000'', content = fallback ''coding tips'', topic = Some ''coding tips'',
             timestamp = 2000, status = pending, scheduledFor = None\<rparr>)],
      schedule = \<lparr>frequency = ''daily'', time = ''09:00'', timezone = ''UTC'', isActive = True\<rparr>,
      scheduleInterval = None, timers = [(0, Timeout 32400000)], nextHandle = 1, tweets = []\<rparr>"
  by (simp add: one_post_def one_topic_state post_api_generate_post_def map_values_def
      random_index_world generatePost_world world_fields Let_def toString_eval)

lemma one_approved_state:
  "one_approved =
     \<lparr>topics = [(''1000'', \<lparr>t_id = ''1000'', t_name = ''coding tips'', createdAt = 1000,
                            t_isActive = True\<rparr>)],
      pendingPosts =
        [(''2000'',
          \<lparr>p_id = ''2000'', content = fallback ''coding tips'', topic = Some ''coding tips'',
             timestamp = 2000, status = approved, scheduledFor = None\<rparr>)],
      schedule = \<lparr>frequency = ''daily'', time = ''09:00'', timezone = ''UTC'', isActive = True\<rparr>,
      scheduleInterval = None, timers = [(0, Timeout 32400000)], nextHandle = 1,
      tweets = [fallback ''coding tips'']\<rparr>"
  by (simp add: one_approved_def one_post_state post_api_posts_approve_def postToX_world)

section \<open>Approving and rejecting\<close>

text \<open>
  C3, amended. For an id the store does not know, approve and reject both answer
  \<open>Post not found\<close> and change nothing. For a known id the stored status is not consulted:
  reject answers success and leaves the post \<open>rejected\<close>; approve hands the content to the
  publisher, and on its success answers with the remote id, leaves the post \<open>approved\<close> and
  the text published, while on its failure it answers with the publisher's error and
  changes nothing.
\<close>

theorem approve_reject_outcomes:
  assumes "i \<noteq> []"
  shows "case map_get (pendingPosts srv) i of
           None \<Rightarrow>
             post_api_posts_approve e srv i = (srv, Failure ''Post not found'') \<and>
             post_api_posts_reject srv i = (srv, Failure ''Post not found'')
         | Some post \<Rightarrow>
             snd (post_api_posts_reject srv i) = Success \<and>
             status_of (fst (post_api_posts_reject srv i)) i = Some rejected \<and>
             (case postToX e (content post) of
                Published rid \<Rightarrow>
                  snd (post_api_posts_approve e srv i) = ApproveResult rid \<and>
                  status_of (fst (post_api_posts_approve e srv i)) i = Some approved \<and>
                  tweets (fst (post_api_posts_approve e srv i)) = tweets srv @ [content post]
              | PublishFailed err \<Rightarrow>
                  post_api_posts_approve e srv i = (srv, Failure err))"
  using assms
  by (simp add: post_api_posts_approve_def post_api_posts_reject_def status_of_def
      map_get_map_set split: option.split publish_result.split)

text \<open>The amended statement at a post that is already approved: rejecting it succeeds, and
  approving it again publishes again.\<close>

theorem approve_reject_outcomes_witness:
  "''2000'' \<noteq> [] \<and>
   snd (post_api_posts_reject one_approved ''2000'') = Success \<and>
   status_of (fst (post_api_posts_reject one_approved ''2000'')) ''2000'' = Some rejected \<and>
   snd (post_api_posts_approve (world 4000) one_approved ''2000'') = ApproveResult ''99'' \<and>
   status_of (fst (post_api_posts_approve (world 4000) one_approved ''2000'')) ''2000''
     = Some approved"
proof -
  have known: "map_get (pendingPosts one_approved) ''2000'' =
      Some \<lparr>p_id = ''2000'', content = fallback ''coding tips'', topic = Some ''coding tips'',
            timestamp = 2000, status = approved, scheduledFor = None\<rparr>"
    by (simp add: one_approved_state)
  have "''2000'' \<noteq> []"
    by simp
  from approve_reject_outcomes [OF this, where srv = one_approved and e = "world 4000"]
  show ?thesis
    by (simp add: known postToX_world)
qed

text \<open>C3 as stated fails: the post \<open>2000\<close> is stored as approved, and still approve answers
  success and publishes the text a second time, and reject answers success.\<close>

theorem approve_reject_on_approved_counterexample:
  "status_of one_approved ''2000'' = Some approved \<and>
   snd (post_api_posts_approve (world 4000) one_approved ''2000'') = ApproveResult ''99'' \<and>
   tweets (fst (post_api_posts_approve (world 4000) one_approved ''2000''))
     = [fallback ''coding tips'', fallback ''coding tips''] \<and>
   snd (post_api_posts_reject one_approved ''2000'') = Success"
  by (simp add: one_approved_state status_of_def post_api_posts_approve_def
      post_api_posts_reject_def postToX_world)

text \<open>
  C4. A pending post whose publishing fails stays pending and the store is unchanged, the
  caller gets the publisher's reason, and a later approve of the same id whose publishing
  succeeds is accepted and leaves the post approved. Whatever the surroundings, a pending
  post is found approved after an approve only if the publisher reported success.
\<close>

theorem publish_failure_keeps_pending:
  assumes "i \<noteq> []"
    and "map_get (pendingPosts srv) i = Some post"
    and "status post = pending"
    and "postToX e (content post) = PublishFailed err"
    and "postToX e2 (content post) = Published rid"
  shows "post_api_posts_approve e srv i = (srv, Failure err) \<and>
         status_of (fst (post_api_posts_approve e srv i)) i = Some pending \<and>
         snd (post_api_posts_approve e2 (fst (post_api_posts_approve e srv i)) i)
           = ApproveResult rid \<and>
         status_of (fst (post_api_posts_approve e2 (fst (post_api_posts_approve e srv i)) i)) i
           = Some approved \<and>
         (status_of (fst (post_api_posts_approve e3 srv i)) i = Some approved
            \<longrightarrow> (\<exists>r. postToX e3 (content post) = Published r))"
proof -
  have fail: "post_api_posts_approve e srv i = (srv, Failure err)"
    using assms by (simp add: post_api_posts_approve_def)
  have retry: "post_api_posts_approve e2 srv i =
      (srv\<lparr>pendingPosts := map_set (pendingPosts srv) i (post\<lparr>status := approved\<rparr>),
           tweets := tweets srv @ [content post]\<rparr>, ApproveResult rid)"
    using assms by (simp add: post_api_posts_approve_def)
  have only: "status_of (fst (post_api_posts_approve e3 srv i)) i = Some approved
      \<longrightarrow> (\<exists>r. postToX e3 (content post) = Published r)"
    using assms
    by (cases "postToX e3 (content post)") (simp_all add: post_api_posts_approve_def status_of_def)
  show ?thesis
    using assms(2,3) only by (simp add: fail retry status_of_def map_get_map_set)
qed

text \<open>C4 on the sample server: the first approve runs without credentials, the retry with a
  publisher that accepts.\<close>

theorem publish_failure_keeps_pending_witness:
  "''2000'' \<noteq> [] \<and>
   status_of one_post ''2000'' = Some pending \<and>
   postToX (no_credentials 3000) (fallback ''coding tips'')
     = PublishFailed ''X API credentials not configured'' \<and>
   postToX (world 4000) (fallback ''coding tips'') = Published ''99'' \<and>
   post_api_posts_approve (no_credentials 3000) one_post ''2000''
     = (one_post, Failure ''X API credentials not configured'') \<and>
   snd (post_api_posts_approve (world 4000)
          (fst (post_api_posts_approve (no_credentials 3000) one_post ''2000'')) ''2000'')
     = ApproveResult ''99'' \<and>
   status_of (fst (post_api_posts_approve (world 4000)
          (fst (post_api_posts_approve (no_credentials 3000) one_post ''2000'')) ''2000'')) ''2000''
     = Some approved \<and>
   status_of (fst (post_api_posts_approve (world 4000) one_post ''2000'')) ''2000'' = Some approved"
proof -
  let ?post = "\<lparr>p_id = ''2000'', content = fallback ''coding tips'', topic = Some ''coding tips'',
                 timestamp = 2000, status = pending, scheduledFor = None\<rparr>"
  have h1: "''2000'' \<noteq> []"
    by simp
  have h2: "map_get (pendingPosts one_post) ''2000'' = Some ?post"
    by (simp add: one_post_state)
  have h3: "status ?post = pending"
    by simp
  have h4: "postToX (no_credentials 3000) (content ?post)
      = PublishFailed ''X API credentials not configured''"
    by (simp add: postToX_no_credentials)
  have h5: "postToX (world 4000) (content ?post) = Published ''99''"
    by (simp add: postToX_world)
  have p1: "status_of one_post ''2000'' = Some pending"
    by (simp add: status_of_def h2)
  have p2: "postToX (no_credentials 3000) (fallback ''coding tips'')
      = PublishFailed ''X API credentials not configured''"
    by (simp add: postToX_no_credentials)
  have p3: "postToX (world 4000) (fallback ''coding tips'') = Published ''99''"
    by (simp add: postToX_world)
  have p4: "status_of (fst (post_api_posts_approve (world 4000) one_post ''2000'')) ''2000''
      = Some approved"
    by (simp add: post_api_posts_approve_def h2 postToX_world status_of_def map_get_map_set)
  note main = publish_failure_keeps_pending [where ?e3.0 = "world 4000", OF h1 h2 h3 h4 h5]
  show ?thesis
    using h1 p1 p2 p3 p4 main by blast
qed

section \<open>The status of a stored post over time\<close>

lemma status_of_topics [simp]: "status_of (srv\<lparr>topics := x\<rparr>) i = status_of srv i"
  by (simp add: status_of_def)

lemma status_of_timers [simp]: "status_of (srv\<lparr>timers := x\<rparr>) i = status_of srv i"
  by (simp add: status_of_def)

lemma status_of_add_topic: "status_of (fst (post_api_topics e srv n)) i = status_of srv i"
  by (simp add: post_api_topics_def Let_def split: option.split)

lemma status_of_toggle: "status_of (fst (post_api_topics_toggle srv j)) i = status_of srv i"
  by (simp add: post_api_topics_toggle_def Let_def split: option.split)

lemma status_of_delete: "status_of (fst (delete_api_topics srv j)) i = status_of srv i"
  by (simp add: delete_api_topics_def)

lemma pendingPosts_startScheduler:
  "pendingPosts (fst (startScheduler e srv)) = pendingPosts srv"
  by (simp add: startScheduler_def clearInterval_def setTimeout_def Let_def split: option.split)

lemma status_of_schedule: "status_of (fst (post_api_schedule e srv f t z)) i = status_of srv i"
proof -
  have "pendingPosts (fst (post_api_schedule e srv f t z)) = pendingPosts srv"
    using pendingPosts_startScheduler
      [of e "srv\<lparr>schedule := (schedule srv)\<lparr>frequency := the f, time := the t, timezone := the z\<rparr>\<rparr>"]
    by (auto simp add: post_api_schedule_def Let_def split: prod.split option.split)
  then show ?thesis
    by (simp add: status_of_def)
qed

lemma status_of_generate:
  assumes "toString (now e) \<noteq> i"
  shows "status_of (fst (post_api_generate_post e srv)) i = status_of srv i"
  using assms
  by (simp add: post_api_generate_post_def Let_def status_of_set split: sum.split)

lemma status_of_scheduled:
  assumes "toString (now e) \<noteq> i"
  shows "status_of (generateScheduledPost e srv) i = status_of srv i"
  using assms
  by (simp add: generateScheduledPost_def Let_def status_of_set split: sum.split)

lemma status_of_setupRecurring: "status_of (setupRecurringSchedule e srv) i = status_of srv i"
  by (simp add: setupRecurringSchedule_def setInterval_def status_of_def)

lemma status_of_fire:
  assumes "toString (now e) \<noteq> i"
  shows "status_of (fire e srv h) i = status_of srv i"
  using assms
  by (simp add: fire_def status_of_setupRecurring status_of_scheduled
      split: option.split timer.split)

lemma settled_approve: "settled srv i \<Longrightarrow> settled (fst (post_api_posts_approve e srv j)) i"
  by (auto simp add: settled_def post_api_posts_approve_def status_of_def map_get_map_set
      split: option.split publish_result.split)

lemma settled_reject: "settled srv i \<Longrightarrow> settled (fst (post_api_posts_reject srv j)) i"
  by (auto simp add: settled_def post_api_posts_reject_def status_of_def map_get_map_set
      split: option.split)

lemma settled_handle:
  assumes "settled srv i" and "toString (now e) \<noteq> i"
  shows "settled (fst (handle e srv ev)) i"
proof (cases ev)
  case (ApprovePost j)
  then show ?thesis using assms(1) by (simp add: settled_approve)
next
  case (RejectPost j)
  then show ?thesis using assms(1) by (simp add: settled_reject)
next
  case GeneratePost
  then show ?thesis using assms by (simp add: settled_def status_of_generate)
next
  case (Fire h)
  then show ?thesis using assms by (simp add: settled_def status_of_fire)
qed (use assms(1) in \<open>simp_all add: settled_def status_of_add_topic status_of_toggle
      status_of_delete status_of_schedule\<close>)

text \<open>
  C2, amended. Take any sequence of events (requests and timers coming due) in which no
  clock reading prints as the id of the post. A stored post whose status is approved or
  rejected is then still stored at the end, and its status is approved or rejected: it
  never returns to pending. It may still change between approved and rejected, since
  approve and reject act on a post of any status.
\<close>

theorem settled_posts_stay_settled:
  assumes "settled srv i" and "\<forall>x \<in> set evs. toString (now (fst x)) \<noteq> i"
  shows "settled (run srv evs) i"
  using assms
proof (induction evs arbitrary: srv)
  case Nil
  then show ?case by simp
next
  case (Cons x evs)
  obtain e ev where x: "x = (e, ev)"
    by (cases x)
  from Cons.prems x have "settled (fst (handle e srv ev)) i"
    by (simp add: settled_handle)
  with Cons.IH Cons.prems(2) x show ?case
    by simp
qed


text \<open>C2, amended, on the approved sample post, which is then rejected while another post is
  generated.\<close>

theorem settled_posts_stay_settled_witness:
  "settled one_approved ''2000'' \<and>
   toString (now (world 4000)) \<noteq> ''2000'' \<and>
   toString (now (world 5000)) \<noteq> ''2000'' \<and>
   settled (run one_approved [(world 4000, RejectPost ''2000''), (world 5000, GeneratePost)]) ''2000''"
proof -
  have h1: "settled one_approved ''2000''"
    by (simp add: settled_def status_of_def one_approved_state)
  have c1: "toString (now (world 4000)) \<noteq> ''2000''"
    and c2: "toString (now (world 5000)) \<noteq> ''2000''"
    by (simp_all add: world_fields toString_eval)
  then have h2: "\<forall>x \<in> set [(world 4000, RejectPost ''2000''), (world 5000, GeneratePost)].
      toString (now (fst x)) \<noteq> ''2000''"
    by simp
  from settled_posts_stay_settled [OF h1 h2] h1 c1 c2 show ?thesis
    by (intro conjI)
qed

text \<open>C2 as stated fails: the post \<open>2000\<close> is approved, and one reject request later it is
  rejected.\<close>

theorem approved_then_rejected_counterexample:
  "status_of one_approved ''2000'' = Some approved \<and>
   status_of (run one_approved [(world 4000, RejectPost ''2000'')]) ''2000'' = Some rejected"
  by (simp add: one_approved_state status_of_def post_api_posts_reject_def)

text \<open>The condition on the clock is needed: a generation at a clock reading that prints as
  the id of a stored post replaces that post by a new pending one.\<close>

lemma same_clock_overwrites:
  "status_of (run one_approved [(world 2000, GeneratePost)]) ''2000'' = Some pending"
  by (simp add: one_approved_state status_of_def post_api_generate_post_def map_values_def
      random_index_world generatePost_world world_fields Let_def toString_eval)

section \<open>Generating posts\<close>

text \<open>
  C6. When no stored topic is active, the generate request answers with the
  no-active-topics error and the server state, the stored posts included, is exactly what
  it was; the scheduled generation leaves the state unchanged as well.
\<close>

theorem no_active_topics_no_post:
  assumes "filter t_isActive (map_values (topics srv)) = []"
  shows "post_api_generate_post e srv =
           (srv, Failure ''No active topics found. Please add and enable some topics first.'') \<and>
         generateScheduledPost e srv = srv"
  using assms by (simp add: post_api_generate_post_def generateScheduledPost_def)

text \<open>C6 on the server whose only topic is switched off.\<close>

theorem no_active_topics_no_post_witness:
  "filter t_isActive (map_values (topics one_inactive)) = [] \<and>
   post_api_generate_post (world 2000) one_inactive =
     (one_inactive, Failure ''No active topics found. Please add and enable some topics first.'') \<and>
   generateScheduledPost (world 2000) one_inactive = one_inactive"
proof -
  have h: "filter t_isActive (map_values (topics one_inactive)) = []"
    by (simp add: one_inactive_state map_values_def)
  from no_active_topics_no_post [OF h, of "world 2000"] h
  show ?thesis
    by simp
qed

text \<open>
  C7. With exactly one active topic, named \<open>coding tips\<close>, and no content client
  configured, the generate request creates and stores a post whose content is the fallback
  sentence for that topic and whose status is pending.
\<close>

theorem coding_tips_fallback:
  assumes "filter t_isActive (map_values (topics srv)) = [t]"
    and "t_name t = ''coding tips''"
    and "openRouterClient e = None"
    and "0 \<le> random e" and "random e < 1"
  shows "\<exists>post.
           post_api_generate_post e srv =
             (srv\<lparr>pendingPosts := map_set (pendingPosts srv) (toString (now e)) post\<rparr>,
              PostResult post) \<and>
           content post =
             ''Tip: coding tips. Keep it short, specific, and actionable. Focus on one insight, avoid fluff.'' \<and>
           status post = pending \<and>
           map_get (pendingPosts (fst (post_api_generate_post e srv))) (p_id post) = Some post"
proof -
  have gen: "generatePost e (Some ''coding tips'') =
      Inr ''Tip: coding tips. Keep it short, specific, and actionable. Focus on one insight, avoid fluff.''"
    using assms(3) by (simp add: generatePost_def subject_def fallback_def)
  show ?thesis
    using assms(1,2) random_index_one [OF assms(4,5)]
    by (simp add: post_api_generate_post_def gen Let_def map_get_map_set)
qed

text \<open>C7 on the one-topic server.\<close>

theorem coding_tips_fallback_witness:
  "filter t_isActive (map_values (topics one_topic))
     = [\<lparr>t_id = ''1000'', t_name = ''coding tips'', createdAt = 1000, t_isActive = True\<rparr>] \<and>
   openRouterClient (world 2000) = None \<and>
   0 \<le> random (world 2000) \<and> random (world 2000) < 1 \<and>
   (\<exists>post.
      post_api_generate_post (world 2000) one_topic =
        (one_topic\<lparr>pendingPosts := map_set (pendingPosts one_topic) (toString (now (world 2000))) post\<rparr>,
         PostResult post) \<and>
      content post =
        ''Tip: coding tips. Keep it short, specific, and actionable. Focus on one insight, avoid fluff.'' \<and>
      status post = pending \<and>
      map_get (pendingPosts (fst (post_api_generate_post (world 2000) one_topic))) (p_id post)
        = Some post)"
proof -
  let ?t = "\<lparr>t_id = ''1000'', t_name = ''coding tips'', createdAt = 1000, t_isActive = True\<rparr>"
  have h1: "filter t_isActive (map_values (topics one_topic)) = [?t]"
    by (simp add: one_topic_state map_values_def)
  have h2: "t_name ?t = ''coding tips''"
    by simp
  have h3: "openRouterClient (world 2000) = None"
    by (simp add: world_fields)
  have h4: "0 \<le> random (world 2000)" and h5: "random (world 2000) < 1"
    by (simp_all add: world_fields)
  from coding_tips_fallback [OF h1 h2 h3 h4 h5] h1 h3 h4 h5
  show ?thesis
    by blast
qed

section \<open>Adding topics\<close>

text \<open>
  C9, amended. Adding a topic fails with \<open>Topic name required\<close>, and changes nothing, when
  the name is absent or the empty string. Every other name is accepted as it is, a name
  made of white space only included: the request answers with the new, active topic and
  stores it under the id made from the clock.
\<close>

theorem add_topic_checks_emptiness_only:
  "post_api_topics e srv None = (srv, Failure ''Topic name required'') \<and>
   post_api_topics e srv (Some []) = (srv, Failure ''Topic name required'') \<and>
   (n \<noteq> [] \<longrightarrow>
      snd (post_api_topics e srv (Some n)) =
        TopicResult \<lparr>t_id = toString (now e), t_name = n, createdAt = now e, t_isActive = True\<rparr> \<and>
      map_get (topics (fst (post_api_topics e srv (Some n)))) (toString (now e)) =
        Some \<lparr>t_id = toString (now e), t_name = n, createdAt = now e, t_isActive = True\<rparr>)"
  by (simp add: post_api_topics_def Let_def map_get_map_set)

text \<open>C9, amended, at the name made of one space.\<close>

theorem add_topic_checks_emptiness_only_witness:
  "'' '' \<noteq> [] \<and>
   snd (post_api_topics (world 5) initial (Some '' '')) =
     TopicResult \<lparr>t_id = ''5'', t_name = '' '', createdAt = 5, t_isActive = True\<rparr> \<and>
   map_get (topics (fst (post_api_topics (world 5) initial (Some '' '')))) ''5'' =
     Some \<lparr>t_id = ''5'', t_name = '' '', createdAt = 5, t_isActive = True\<rparr>"
proof -
  have ts: "toString 5 = ''5''"
    by (simp add: toString_eval)
  from add_topic_checks_emptiness_only [of "world 5" initial "'' ''"]
  show ?thesis
    by (simp add: ts world_fields)
qed

text \<open>C9 as stated fails: the name of three spaces is blank, and the request creates a topic
  for it in the empty registry.\<close>

theorem blank_topic_name_counterexample:
  "list_all is_space ''   '' \<and>
   post_api_topics (world 1000) initial (Some ''   '') =
     (initial\<lparr>topics := [(''1000'', \<lparr>t_id = ''1000'', t_name = ''   '', createdAt = 1000,
                                      t_isActive = True\<rparr>)]\<rparr>,
      TopicResult \<lparr>t_id = ''1000'', t_name = ''   '', createdAt = 1000, t_isActive = True\<rparr>)"
  by (simp add: is_space_def post_api_topics_def Let_def world_fields toString_eval initial_def)

section \<open>Failures of the content generator\<close>

text \<open>
  C5, amended. Let some topic be active. When no content client is configured, the
  generate request creates a pending post for an active topic whose content is the
  fallback sentence for that topic (cut to 279 characters when longer than 280), and
  answers with it. When a client is configured and its request is rejected, no fallback
  is used: the generate request answers with the error's message and creates no post, and
  the scheduled generation creates no post either.
\<close>

theorem generation_failure_outcomes:
  assumes "filter t_isActive (map_values (topics srv)) \<noteq> []"
    and "0 \<le> random e" and "random e < 1"
  shows "(openRouterClient e = None \<longrightarrow>
            (\<exists>post t.
               post_api_generate_post e srv =
                 (srv\<lparr>pendingPosts := map_set (pendingPosts srv) (toString (now e)) post\<rparr>,
                  PostResult post) \<and>
               status post = pending \<and>
               t \<in> set (map_values (topics srv)) \<and> t_isActive t \<and>
               content post =
                 (if length (fallback (subject (Some (t_name t)))) > 280 then take 279 (fallback (subject (Some (t_name t))))
                  else fallback (subject (Some (t_name t)))))) \<and>
         (openRouterClient e = Some client \<and> (\<forall>p. client p = Rejects err) \<longrightarrow>
            post_api_generate_post e srv = (srv, Failure (error_message err)) \<and>
            generateScheduledPost e srv = srv)"
proof -
  let ?act = "filter t_isActive (map_values (topics srv))"
  let ?k = "random_index e (length ?act)"
  have k: "?k < length ?act"
    using assms by (simp add: random_index_less)
  then have "?act ! ?k \<in> set ?act"
    by (rule nth_mem)
  then have mem: "?act ! ?k \<in> set (map_values (topics srv))" and act: "t_isActive (?act ! ?k)"
    by simp_all
  have down: "openRouterClient e = Some client \<and> (\<forall>p. client p = Rejects err) \<longrightarrow>
      post_api_generate_post e srv = (srv, Failure (error_message err)) \<and>
      generateScheduledPost e srv = srv"
    using assms(1) k
    by (simp add: post_api_generate_post_def generateScheduledPost_def generatePost_def Let_def)
  have up: "openRouterClient e = None \<longrightarrow>
      (\<exists>post t.
         post_api_generate_post e srv =
           (srv\<lparr>pendingPosts := map_set (pendingPosts srv) (toString (now e)) post\<rparr>,
            PostResult post) \<and>
         status post = pending \<and>
         t \<in> set (map_values (topics srv)) \<and> t_isActive t \<and>
         content post =
           (if length (fallback (subject (Some (t_name t)))) > 280 then take 279 (fallback (subject (Some (t_name t))))
            else fallback (subject (Some (t_name t)))))"
  proof
    assume none: "openRouterClient e = None"
    let ?t = "?act ! ?k"
    let ?c = "if length (fallback (subject (Some (t_name ?t)))) > 280 then take 279 (fallback (subject (Some (t_name ?t))))
              else fallback (subject (Some (t_name ?t)))"
    let ?post = "\<lparr>p_id = toString (now e), content = ?c, topic = Some (t_name ?t),
                   timestamp = now e, status = pending, scheduledFor = None\<rparr>"
    have gen: "generatePost e (Some (t_name ?t)) = Inr ?c"
      using none by (simp add: generatePost_def)
    have "post_api_generate_post e srv =
        (srv\<lparr>pendingPosts := map_set (pendingPosts srv) (toString (now e)) ?post\<rparr>,
         PostResult ?post)"
      using assms(1) k by (simp add: post_api_generate_post_def Let_def gen)
    moreover have "status ?post = pending" and "content ?post = ?c"
      by simp_all
    ultimately show "\<exists>post t.
         post_api_generate_post e srv =
           (srv\<lparr>pendingPosts := map_set (pendingPosts srv) (toString (now e)) post\<rparr>,
            PostResult post) \<and>
         status post = pending \<and>
         t \<in> set (map_values (topics srv)) \<and> t_isActive t \<and>
         content post =
           (if length (fallback (subject (Some (t_name t)))) > 280 then take 279 (fallback (subject (Some (t_name t))))
            else fallback (subject (Some (t_name t))))"
      using mem act by blast
  qed
  from up down show ?thesis
    by blast
qed

text \<open>C5, amended, on the one-topic server: once without a content client, once with a
  client that rejects every request.\<close>

theorem generation_failure_outcomes_witness:
  "filter t_isActive (map_values (topics one_topic)) \<noteq> [] \<and>
   0 \<le> random (world 2000) \<and> random (world 2000) < 1 \<and>
   openRouterClient (world 2000) = None \<and>
   (\<exists>post t.
      post_api_generate_post (world 2000) one_topic =
        (one_topic\<lparr>pendingPosts :=
                     map_set (pendingPosts one_topic) (toString (now (world 2000))) post\<rparr>,
         PostResult post) \<and>
      status post = pending \<and>
      t \<in> set (map_values (topics one_topic)) \<and> t_isActive t \<and>
      content post =
        (if length (fallback (subject (Some (t_name t)))) > 280 then take 279 (fallback (subject (Some (t_name t))))
         else fallback (subject (Some (t_name t))))) \<and>
   0 \<le> random (generator_down 3000) \<and> random (generator_down 3000) < 1 \<and>
   openRouterClient (generator_down 3000)
     = Some (\<lambda>p. Rejects (Error ''503 Service Unavailable'')) \<and>
   post_api_generate_post (generator_down 3000) one_topic
     = (one_topic, Failure (error_message (Error ''503 Service Unavailable''))) \<and>
   generateScheduledPost (generator_down 3000) one_topic = one_topic"
proof -
  have h1: "filter t_isActive (map_values (topics one_topic)) \<noteq> []"
    by (simp add: one_topic_state map_values_def)
  have h2: "0 \<le> random (world 2000)" and h3: "random (world 2000) < 1"
    and h4: "openRouterClient (world 2000) = None"
    by (simp_all add: world_fields)
  have g2: "0 \<le> random (generator_down 3000)" and g3: "random (generator_down 3000) < 1"
    and g4: "openRouterClient (generator_down 3000)
      = Some (\<lambda>p. Rejects (Error ''503 Service Unavailable''))"
    by (simp_all add: generator_down_fields)
  have g5: "\<forall>p. (\<lambda>p. Rejects (Error ''503 Service Unavailable'')) p
      = Rejects (Error ''503 Service Unavailable'')"
    by simp
  note up = generation_failure_outcomes [OF h1 h2 h3, THEN conjunct1, rule_format, OF h4]
  note down = generation_failure_outcomes [OF h1 g2 g3, THEN conjunct2, rule_format,
      OF conjI, OF g4 g5]
  from h1 h2 h3 h4 g2 g3 g4 up down show ?thesis
    by blast
qed

text \<open>C5 as stated fails: with a content client whose request is rejected, the caller of
  the generate request receives that error, and no post is created by either path.\<close>

theorem generator_error_reaches_caller_counterexample:
  "post_api_generate_post (generator_down 2000) one_topic
     = (one_topic, Failure ''503 Service Unavailable'') \<and>
   generateScheduledPost (generator_down 2000) one_topic = one_topic"
proof -
  have k: "random_index (generator_down 2000) (Suc 0) = 0"
    by (simp add: random_index_one generator_down_fields)
  have gen: "generatePost (generator_down 2000) (Some ''coding tips'')
      = Inl (Error ''503 Service Unavailable'')"
    by (simp add: generatePost_def subject_def generator_down_fields)
  show ?thesis
    by (simp add: post_api_generate_post_def generateScheduledPost_def one_topic_state
        map_values_def k gen Let_def)
qed

section \<open>The next run\<close>










text \<open>The spec's scenario: at 09:30 UTC the schedule \<open>09:00\<close> gives 09:00 of the next day.\<close>

lemma nine_oclock_at_half_past_nine:
  "nextRun (world 0) ''09:00'' (parseLocal (world 0) (toLocaleTime (9 * 3600000 + 30 * 60000) 0))
     = Some (msPerDay + 9 * 3600000)"
  by (simp add: clock_eval world_fields)

text \<open>The process's own zone matters: started in New York at 01:30 UTC on 10 March 2024 with
  the schedule \<open>09:00\<close> in UTC, the code reads 01:30 as a New York time before the change
  and 09:00 as one after it, so the timeout is due six and a half hours later, at 08:00
  UTC.\<close>

lemma process_zone_changes_offset:
  "timers (listen (new_york 1710034200000)) = [(0, Timeout (1710034200000 + 23400000))]"
  by (simp add: listen_def initial_def startScheduler_def setTimeout_def new_york_def
      world_def utc_only_def clock_eval)

text \<open>What JavaScript reads as a number is read as one: \<open>1e1\<close> and \<open>+10\<close> are 10, \<open>0x1E\<close> is
  30, \<open>30.5\<close> is thirty and a half, and a word is \<open>NaN\<close>.\<close>

lemma Number_samples:
  "Number ''1e1'' = Finite 10" "Number ''+10'' = Finite 10" "Number ''0x1E'' = Finite 30"
  "Number ''30.5'' = Finite (61 / 2)" "Number '' 07 '' = Finite 7" "Number ''-0'' = Finite 0"
  "Number ''noon'' = NaN" "Number ''Infinity'' = PlusInfinity" "Number ''.'' = NaN"
  by (simp_all add: number_eval radix_literal_def digit_of_def Let_def)




text \<open>
  C8. The claim asks for the configured HH:MM of the zone, today or tomorrow. The code
  computes something else for the hour 0: at 00:00 UTC the schedule \<open>00:15\<close> gives 09:15 of
  the same day, and that is the timeout the update arms.
\<close>

theorem quarter_past_midnight_runs_at_nine:
  "nextRun (world 0) ''00:15'' (parseLocal (world 0) (toLocaleTime 0 0))
     = Some (9 * 3600000 + 15 * 60000) \<and>
   timers (fst (post_api_schedule (world 0) initial (Some ''daily'') (Some ''00:15'') (Some ''UTC'')))
     = [(0, Timeout (9 * 3600000 + 15 * 60000))]"
  by (simp add: post_api_schedule_def initial_def startScheduler_def
      setTimeout_def world_eval clock_eval)

section \<open>Restarting the scheduler\<close>

lemma map_delete_other:
  assumes "(h, x) \<in> set m" and "k \<noteq> h"
  shows "(h, x) \<in> set (map_delete m k)"
  using assms by (induction m) auto

lemma startScheduler_keeps_timeout:
  assumes "(h, Timeout d) \<in> set (timers srv)" and "scheduleInterval srv \<noteq> Some h"
  shows "(h, Timeout d) \<in> set (timers (fst (startScheduler e srv)))"
  using assms
  by (auto simp add: startScheduler_def clearInterval_def setTimeout_def Let_def map_delete_other
      split: option.split)

lemma startScheduler_replaces_interval:
  assumes "timers srv = [(h, Interval d ms)]" and "scheduleInterval srv = Some h"
    and "isActive (schedule srv)"
    and "timeZone e (timezone (schedule srv)) (now e) = Some off"
  shows "\<exists>d'. timers (fst (startScheduler e srv)) = [(nextHandle srv, Timeout d')]"
  using assms
  by (simp add: startScheduler_def clearInterval_def setTimeout_def Let_def)

text \<open>A recurring interval of 30 days is longer than Node's longest timer, so the interval
  armed for the frequency \<open>monthly\<close> has a period of one millisecond.\<close>

lemma monthly_interval_overflows:
  "timer_delay (Some (intervalMs ''monthly'')) = 1"
  by (simp add: timer_delay_def intervalMs_def TIMEOUT_MAX_def)

lemma rescheduled_state:
  "rescheduled =
     \<lparr>topics = [(''1000'', \<lparr>t_id = ''1000'', t_name = ''coding tips'', createdAt = 1000,
                            t_isActive = True\<rparr>)],
      pendingPosts = [],
      schedule = \<lparr>frequency = ''daily'', time = ''10:00'', timezone = ''UTC'', isActive = True\<rparr>,
      scheduleInterval = None, timers = [(0, Timeout 32400000), (1, Timeout 36000000)],
      nextHandle = 2, tweets = []\<rparr>"
  by (simp add: rescheduled_def one_topic_state post_api_schedule_def startScheduler_def
      setTimeout_def Let_def world_eval clock_eval)

lemma both_fired_state:
  "both_fired =
     \<lparr>topics = [(''1000'', \<lparr>t_id = ''1000'', t_name = ''coding tips'', createdAt = 1000,
                            t_isActive = True\<rparr>)],
      pendingPosts =
        [(''32400000'',
          \<lparr>p_id = ''32400000'', content = fallback ''coding tips'', topic = Some ''coding tips'',
             timestamp = 32400000, status = pending, scheduledFor = None\<rparr>),
         (''36000000'',
          \<lparr>p_id = ''36000000'', content = fallback ''coding tips'', topic = Some ''coding tips'',
             timestamp = 36000000, status = pending, scheduledFor = None\<rparr>)],
      schedule = \<lparr>frequency = ''daily'', time = ''10:00'', timezone = ''UTC'', isActive = True\<rparr>,
      scheduleInterval = Some 3,
      timers = [(2, Interval 118800000 86400000), (3, Interval 122400000 86400000)],
      nextHandle = 4, tweets = []\<rparr>"
  by (simp add: both_fired_def rescheduled_state fire_def generateScheduledPost_def
      setupRecurringSchedule_def setInterval_def intervalMs_def timer_delay_def TIMEOUT_MAX_def
      map_values_def
      random_index_world generatePost_world world_fields Let_def toString_eval)

text \<open>
  C1. \<open>startScheduler\<close> cancels the recurring interval only. An update that arrives while
  the timeout of the first run is still armed leaves it armed beside the new one: the
  one-topic server has one timer before the update and two after it, both come due and
  each generates a post, and each arms a recurring interval of its own, of which
  \<open>scheduleInterval\<close> remembers the later one only.
\<close>

theorem update_before_first_run_doubles_generation:
  "timers one_topic = [(0, Timeout 32400000)] \<and>
   timers rescheduled = [(0, Timeout 32400000), (1, Timeout 36000000)] \<and>
   map fst (pendingPosts both_fired) = [''32400000'', ''36000000''] \<and>
   timers both_fired = [(2, Interval 118800000 86400000), (3, Interval 122400000 86400000)] \<and>
   scheduleInterval both_fired = Some 3"
  by (simp add: one_topic_state rescheduled_state both_fired_state)

end
